theory Spec2Isabelle
  imports Complex_Main
begin

section \<open>Strings and exceptions of the Python program\<close>

text \<open>
  A Python \<open>str\<close> is modelled by the bytes of its UTF-8 encoding, as a \<open>string\<close>.
  The three scripts only concatenate strings, compare them with ASCII literals and test
  whether \<open>s.strip()\<close> is empty, so the encoding is visible in \<open>is_blank\<close> alone.
\<close>

definition nl :: string where
  "nl = [CHR 0x0A]"

text \<open>The glyph U+274C that starts the error messages of the scripts.\<close>

definition cross_mark :: string where
  "cross_mark = [CHR 0xE2, CHR 0x9D, CHR 0x8C]"

text \<open>
  \<open>str.isspace\<close> holds for the code points 09-0D, 1C-1F, 20, 85, A0, 1680, 2000-200A,
  2028, 2029, 202F, 205F and 3000. The first ten are one byte in UTF-8, 85 and A0 are
  two bytes, the others three.
\<close>

definition ascii_space :: "char \<Rightarrow> bool" where
  "ascii_space c = (c \<in> set [CHR 0x09, CHR 0x0A, CHR 0x0B, CHR 0x0C, CHR 0x0D,
     CHR 0x1C, CHR 0x1D, CHR 0x1E, CHR 0x1F, CHR 0x20])"

definition two_byte_space :: "string \<Rightarrow> bool" where
  "two_byte_space s = (s \<in> set [[CHR 0xC2, CHR 0x85], [CHR 0xC2, CHR 0xA0]])"

definition three_byte_space :: "string \<Rightarrow> bool" where
  "three_byte_space s = (s \<in> set [
     [CHR 0xE1, CHR 0x9A, CHR 0x80],
     [CHR 0xE2, CHR 0x80, CHR 0x80], [CHR 0xE2, CHR 0x80, CHR 0x81],
     [CHR 0xE2, CHR 0x80, CHR 0x82], [CHR 0xE2, CHR 0x80, CHR 0x83],
     [CHR 0xE2, CHR 0x80, CHR 0x84], [CHR 0xE2, CHR 0x80, CHR 0x85],
     [CHR 0xE2, CHR 0x80, CHR 0x86], [CHR 0xE2, CHR 0x80, CHR 0x87],
     [CHR 0xE2, CHR 0x80, CHR 0x88], [CHR 0xE2, CHR 0x80, CHR 0x89],
     [CHR 0xE2, CHR 0x80, CHR 0x8A], [CHR 0xE2, CHR 0x80, CHR 0xA8],
     [CHR 0xE2, CHR 0x80, CHR 0xA9], [CHR 0xE2, CHR 0x80, CHR 0xAF],
     [CHR 0xE2, CHR 0x81, CHR 0x9F], [CHR 0xE3, CHR 0x80, CHR 0x80]])"

text \<open>
  \<open>is_blank s\<close> is the truth value of \<open>not s.strip()\<close>: \<open>strip\<close> removes the white
  space at both ends, so its result is empty exactly when \<open>s\<close> is white space only.
\<close>

fun is_blank :: "string \<Rightarrow> bool" where
  "is_blank [] = True"
| "is_blank (c # cs) =
     (if ascii_space c then is_blank cs
      else if two_byte_space (take 2 (c # cs)) then is_blank (drop 1 cs)
      else if three_byte_space (take 3 (c # cs)) then is_blank (drop 2 cs)
      else False)"

text \<open>\<open>sep.join(xs)\<close> of Python.\<close>

fun str_join :: "string \<Rightarrow> string list \<Rightarrow> string" where
  "str_join sep [] = []"
| "str_join sep [x] = x"
| "str_join sep (x # y # ys) = x @ sep @ str_join sep (y # ys)"

text \<open>
  An exception is its class and its text \<open>str(e)\<close>. \<open>RuntimeError\<close> stands for
  that class and its subclasses, which is what \<open>except RuntimeError\<close> catches; every
  class here is a subclass of \<open>Exception\<close>. Interrupts of the interpreter
  (\<open>KeyboardInterrupt\<close>, \<open>SystemExit\<close>) are not modelled.
\<close>

datatype exn_class = RuntimeError | ValueError | IndexError | OpenAIError | OtherException

datatype exn = Exn exn_class string

fun exn_str :: "exn \<Rightarrow> string" where
  "exn_str (Exn k msg) = msg"

fun class_of :: "exn \<Rightarrow> exn_class" where
  "class_of (Exn k msg) = k"

section \<open>The libraries and services the scripts call\<close>

text \<open>
  \<open>urlparse\<close> and \<open>parse_qs\<close> (urllib.parse), \<open>os.getenv\<close>, the \<open>OpenAI\<close> client
  and \<open>YouTubeTranscriptApi.get_transcript\<close> are not code of the repository. The
  scripts are modelled over an environment \<open>env\<close> that holds them; an external call
  returns either the exception it raises (\<open>Inl\<close>) or its value (\<open>Inr\<close>).
\<close>

record parse_result =
  scheme :: string
  netloc :: string
  path :: string
  params :: string
  query :: string
  fragment :: string
  hostname :: "string option"

text \<open>A caption fragment, the dictionary \<open>{'text': .., 'start': .., 'duration': ..}\<close>.\<close>

record entry =
  entry_text :: string
  entry_start :: real
  entry_duration :: real

record client =
  api_key :: string

record chat_request =
  model :: string
  messages :: "(string \<times> string) list"
  temperature :: real
  max_tokens :: nat

text \<open>
  The field \<open>choices\<close> lists \<open>choice.message.content\<close> of every choice. A content
  is a string, possibly empty; a content that is \<open>None\<close> is not modelled.
\<close>

record chat_response =
  choices :: "string list"

type_synonym proxies = "string option \<times> string option"

record env =
  getenv :: "string \<Rightarrow> string option"
  OpenAI :: "string option \<Rightarrow> exn + client"
  urlparse :: "string \<Rightarrow> exn + parse_result"
  parse_qs :: "string \<Rightarrow> (string \<rightharpoonup> string list)"
  get_transcript :: "string \<Rightarrow> proxies option \<Rightarrow> exn + entry list"
  chat_completions_create :: "client \<Rightarrow> chat_request \<Rightarrow> exn + chat_response"

text \<open>
  What a script run does to the outside, in order: the requests it sends and the
  messages of its handlers (\<open>st.warning\<close>, \<open>st.error\<close>, and the \<open>st.success\<close> of the
  Done button). The widgets that only display (title, markdown, the summary box, the list
  of past questions) read the state and are left out.
\<close>

datatype event =
    Transcript_request string "proxies option"
  | Chat_request chat_request
  | St_warning string
  | St_error string
  | St_success string

type_synonym 'a io = "event list \<times> (exn + 'a)"

section \<open>Start of every script (summarizer.py 12-14, summarizero2.py 12-14, summary.py 13-19)\<close>

text \<open>
  \<open>load_dotenv()\<close> adds the entries of the .env file to the process environment;
  \<open>getenv env\<close> is the environment after that. The key is passed to the client
  constructor as it is, present or not.
\<close>

definition startup :: "env \<Rightarrow> exn + client" where
  "startup env = (let openai_api_key = getenv env ''OPENAI_API_KEY'' in
     OpenAI env openai_api_key)"

section \<open>Helper functions\<close>

text \<open>
  \<open>d.get('v', [None])[0]\<close>: the values of the key, or the one-element list of
  \<open>None\<close>, indexed at 0. Indexing an empty list raises IndexError.
\<close>

definition get_v_first :: "(string \<rightharpoonup> string list) \<Rightarrow> exn + string option" where
  "get_v_first d =
     (case (case d ''v'' of None \<Rightarrow> [None] | Some vs \<Rightarrow> map Some vs) of
        [] \<Rightarrow> Inl (Exn IndexError ''list index out of range'')
      | x # xs \<Rightarrow> Inr x)"

text \<open>summarizer.py, lines 17-23.\<close>

definition extract_video_id :: "env \<Rightarrow> string \<Rightarrow> exn + string option" where
  "extract_video_id env url =
     (case urlparse env url of
        Inl e \<Rightarrow> Inl e
      | Inr parsed_url \<Rightarrow>
          if hostname parsed_url = Some ''youtu.be'' then
            Inr (Some (drop 1 (path parsed_url)))
          else if hostname parsed_url \<in> set [Some ''www.youtube.com'', Some ''youtube.com''] then
            get_v_first (parse_qs env (query parsed_url))
          else Inr None)"

text \<open>summarizero2.py, lines 17-23.\<close>

definition extract_video_id_o2 :: "env \<Rightarrow> string \<Rightarrow> exn + string option" where
  "extract_video_id_o2 env url =
     (case urlparse env url of
        Inl e \<Rightarrow> Inl e
      | Inr parsed_url \<Rightarrow>
          if hostname parsed_url = Some ''youtu.be'' then
            Inr (Some (drop 1 (path parsed_url)))
          else if hostname parsed_url \<in> set [Some ''www.youtube.com'', Some ''youtube.com''] then
            get_v_first (parse_qs env (query parsed_url))
          else Inr None)"

text \<open>summary.py, lines 23-33.\<close>

definition extract_video_id_summary :: "env \<Rightarrow> string \<Rightarrow> exn + string option" where
  "extract_video_id_summary env url =
     (case urlparse env url of
        Inl e \<Rightarrow> Inl e
      | Inr parsed_url \<Rightarrow>
          if hostname parsed_url = Some ''youtu.be'' then
            Inr (Some (drop 1 (path parsed_url)))
          else if hostname parsed_url \<in> set [Some ''www.youtube.com'', Some ''youtube.com''] then
            get_v_first (parse_qs env (query parsed_url))
          else Inr None)"

text \<open>
  summarizer.py, lines 25-27, and summary.py, lines 35-41: no proxies, and an exception
  of the service leaves the function as it is.
\<close>

definition fetch_transcript :: "env \<Rightarrow> string \<Rightarrow> string io" where
  "fetch_transcript env video_id =
     ([Transcript_request video_id None],
      case get_transcript env video_id None of
        Inl e \<Rightarrow> Inl e
      | Inr transcript_list \<Rightarrow> Inr (str_join '' '' (map entry_text transcript_list)))"

text \<open>
  summarizero2.py, lines 25-40: the proxies come from the environment, and every
  exception is replaced by a RuntimeError whose text ends with \<open>str(e)\<close>.
\<close>

definition transcript_hint :: string where
  "transcript_hint =
     ''Could not retrieve transcript. This may be due to:'' @ nl @
     ''- The video has no captions or captions are disabled.'' @ nl @
     ''- Your IP is being blocked by YouTube (common on cloud hosting).'' @ nl @
     ''- You are using a cloud provider IP (e.g., Streamlit Cloud, AWS, etc.).'' @ nl @ nl @
     ''Technical error: ''"

definition fetch_transcript_o2 :: "env \<Rightarrow> string \<Rightarrow> string io" where
  "fetch_transcript_o2 env video_id =
     (let proxy = (getenv env ''HTTP_PROXY'', getenv env ''HTTPS_PROXY'') in
      ([Transcript_request video_id (Some proxy)],
       case get_transcript env video_id (Some proxy) of
         Inl e \<Rightarrow> Inl (Exn RuntimeError (transcript_hint @ exn_str e))
       | Inr transcript_list \<Rightarrow> Inr (str_join '' '' (map entry_text transcript_list))))"

text \<open>\<open>response.choices[0].message.content\<close>.\<close>

definition first_content :: "chat_response \<Rightarrow> exn + string" where
  "first_content response =
     (case choices response of
        [] \<Rightarrow> Inl (Exn IndexError ''list index out of range'')
      | c # cs \<Rightarrow> Inr c)"

definition full_prompt :: "string \<Rightarrow> string \<Rightarrow> string" where
  "full_prompt prompt transcript =
     prompt @ nl @ nl @
     ''Here is the transcript of the video:'' @ nl @ transcript @ nl @ nl @
     ''Generate a compact, descriptive summary with key points.''"

text \<open>summarizer.py, lines 29-44, and summary.py, lines 43-63.\<close>

definition summary_request :: "string \<Rightarrow> string \<Rightarrow> string \<Rightarrow> chat_request" where
  "summary_request prompt transcript mdl =
     \<lparr>model = mdl,
      messages =
        [(''system'', ''You are a helpful assistant that summarizes video transcripts.''),
         (''user'', full_prompt prompt transcript)],
      temperature = 0.5,
      max_tokens = 800\<rparr>"

definition generate_summary :: "env \<Rightarrow> client \<Rightarrow> string \<Rightarrow> string \<Rightarrow> string \<Rightarrow> string io" where
  "generate_summary env cl prompt transcript mdl =
     (let request = summary_request prompt transcript mdl in
      ([Chat_request request],
       case chat_completions_create env cl request of
         Inl e \<Rightarrow> Inl e
       | Inr response \<Rightarrow> first_content response))"

text \<open>summarizero2.py, lines 42-57: the same with another system message.\<close>

definition system_message_o2 :: string where
  "system_message_o2 =
     ''Watch the following YouTube video. Based on its content, generate a structured summary for educational and knowledge purposes. Break it down into:Objective Required Tools/Inputs (if any) Key Steps or Concepts Sub-tasks or Techniques (if applicable) Dependencies or Prerequisites Potential Pitfalls or Common Mistakes Make the summary clear, concise, and easy to follow, ideal for someone trying to learn or apply the knowledge.''"

definition summary_request_o2 :: "string \<Rightarrow> string \<Rightarrow> string \<Rightarrow> chat_request" where
  "summary_request_o2 prompt transcript mdl =
     \<lparr>model = mdl,
      messages = [(''system'', system_message_o2), (''user'', full_prompt prompt transcript)],
      temperature = 0.5,
      max_tokens = 800\<rparr>"

definition generate_summary_o2 :: "env \<Rightarrow> client \<Rightarrow> string \<Rightarrow> string \<Rightarrow> string \<Rightarrow> string io" where
  "generate_summary_o2 env cl prompt transcript mdl =
     (let request = summary_request_o2 prompt transcript mdl in
      ([Chat_request request],
       case chat_completions_create env cl request of
         Inl e \<Rightarrow> Inl e
       | Inr response \<Rightarrow> first_content response))"

text \<open>summarizer.py, lines 46-62, and summarizero2.py, lines 59-75 (the same text).\<close>

definition question_prompt :: "string \<Rightarrow> string \<Rightarrow> string" where
  "question_prompt smry question =
     ''Based on the following summary of a YouTube video, answer the question:'' @ nl @ nl @
     ''Summary: '' @ smry @ nl @ nl @
     ''Question: '' @ question @ nl @
     ''Answer clearly and concisely.''"

definition answer_request :: "string \<Rightarrow> string \<Rightarrow> string \<Rightarrow> chat_request" where
  "answer_request smry question mdl =
     \<lparr>model = mdl,
      messages =
        [(''system'', ''You are an assistant that answers questions based on video summaries.''),
         (''user'', question_prompt smry question)],
      temperature = 0.5,
      max_tokens = 400\<rparr>"

definition answer_question_from_summary ::
  "env \<Rightarrow> client \<Rightarrow> string \<Rightarrow> string \<Rightarrow> string \<Rightarrow> string io" where
  "answer_question_from_summary env cl smry question mdl =
     (let request = answer_request smry question mdl in
      ([Chat_request request],
       case chat_completions_create env cl request of
         Inl e \<Rightarrow> Inl e
       | Inr response \<Rightarrow> first_content response))"

section \<open>The page: session state, widgets and one run of the script\<close>

text \<open>
  \<open>st.session_state\<close> with its three keys. Lines 78-83 of summarizer.py (90-95 of
  summarizero2.py) give a key its first value when it is absent, which happens in the
  first run of a session only: a session starts in \<open>initial_state\<close>.
\<close>

record session_state =
  summary :: string
  qa_active :: bool
  qa_history :: "(string \<times> string) list"


text \<open>
  What the widgets return in one run. A button returns True only in the run that its
  click started; the script is modelled for every combination all the same.
\<close>

record inputs =
  youtube_url :: string
  user_prompt :: string
  selected_model :: string
  generate_clicked :: bool
  user_question :: string
  submit_question :: bool
  done_clicked :: bool

text \<open>
  The result of a run: the session state it leaves, what it did to the outside, and the
  exception that ended it, if one did (Streamlit shows it and keeps the session).
\<close>

record run_result =
  session :: session_state
  events :: "event list"
  uncaught :: "exn option"

text \<open>
  summarizer.py, lines 87-100, the body of \<open>if st.button("Generate Summary")\<close>. The
  state is assigned after \<open>generate_summary\<close> has returned; every exception of the
  \<open>try\<close> block is shown by \<open>st.error\<close>.
\<close>

definition error_occurred :: "exn \<Rightarrow> event" where
  "error_occurred e = St_error (cross_mark @ '' An error occurred: '' @ exn_str e)"

definition generate_summary_button ::
  "env \<Rightarrow> client \<Rightarrow> inputs \<Rightarrow> session_state \<Rightarrow> session_state \<times> event list" where
  "generate_summary_button env cl inp s =
     (if is_blank (youtube_url inp) then
        (s, [St_warning ''Please enter a YouTube video URL.''])
      else
        (case extract_video_id env (youtube_url inp) of
           Inl e \<Rightarrow> (s, [error_occurred e])
         | Inr None \<Rightarrow> (s, [St_error ''Invalid YouTube URL format.''])
         | Inr (Some video_id) \<Rightarrow>
             if video_id = [] then (s, [St_error ''Invalid YouTube URL format.''])
             else
               (case fetch_transcript env video_id of
                  (ev1, Inl e) \<Rightarrow> (s, ev1 @ [error_occurred e])
                | (ev1, Inr transcript) \<Rightarrow>
                    (case generate_summary env cl (user_prompt inp) transcript
                            (selected_model inp) of
                       (ev2, Inl e) \<Rightarrow> (s, ev1 @ ev2 @ [error_occurred e])
                     | (ev2, Inr txt) \<Rightarrow>
                         (s\<lparr>summary := txt, qa_active := True\<rparr>, ev1 @ ev2)))))"

text \<open>
  summarizero2.py, lines 98-113: the same with the helpers of that file and two
  \<open>except\<close> clauses.
\<close>

definition error_shown_o2 :: "exn \<Rightarrow> event" where
  "error_shown_o2 e =
     (if class_of e = RuntimeError then St_error (cross_mark @ '' '' @ exn_str e)
      else St_error (cross_mark @ '' An unexpected error occurred: '' @ exn_str e))"

definition generate_summary_button_o2 ::
  "env \<Rightarrow> client \<Rightarrow> inputs \<Rightarrow> session_state \<Rightarrow> session_state \<times> event list" where
  "generate_summary_button_o2 env cl inp s =
     (if is_blank (youtube_url inp) then
        (s, [St_warning ''Please enter a YouTube video URL.''])
      else
        (case extract_video_id_o2 env (youtube_url inp) of
           Inl e \<Rightarrow> (s, [error_shown_o2 e])
         | Inr None \<Rightarrow> (s, [St_error ''Invalid YouTube URL format.''])
         | Inr (Some video_id) \<Rightarrow>
             if video_id = [] then (s, [St_error ''Invalid YouTube URL format.''])
             else
               (case fetch_transcript_o2 env video_id of
                  (ev1, Inl e) \<Rightarrow> (s, ev1 @ [error_shown_o2 e])
                | (ev1, Inr transcript) \<Rightarrow>
                    (case generate_summary_o2 env cl (user_prompt inp) transcript
                            (selected_model inp) of
                       (ev2, Inl e) \<Rightarrow> (s, ev1 @ ev2 @ [error_shown_o2 e])
                     | (ev2, Inr txt) \<Rightarrow>
                         (s\<lparr>summary := txt, qa_active := True\<rparr>, ev1 @ ev2)))))"

text \<open>
  summarizer.py, lines 108-130, and summarizero2.py, lines 119-139 (the same text). The
  form and the Done button exist only under the guard of line 108. The call of line 117
  is in no \<open>try\<close> block: its exception ends the run before line 118.
\<close>

definition done_button :: "inputs \<Rightarrow> session_state \<Rightarrow> session_state \<times> event list" where
  "done_button inp s =
     (if done_clicked inp then
        (s\<lparr>qa_active := False, qa_history := []\<rparr>,
         [St_success ''Question & Answer session ended. You can generate a new summary if you like.''])
      else (s, []))"

definition qa_interface :: "env \<Rightarrow> client \<Rightarrow> inputs \<Rightarrow> session_state \<Rightarrow> run_result" where
  "qa_interface env cl inp s =
     (if qa_active s \<and> summary s \<noteq> [] then
        (if submit_question inp \<and> \<not> is_blank (user_question inp) then
           (case answer_question_from_summary env cl (summary s) (user_question inp)
                   (selected_model inp) of
              (ev, Inl e) \<Rightarrow> \<lparr>session = s, events = ev, uncaught = Some e\<rparr>
            | (ev, Inr answer) \<Rightarrow>
                (let s1 = s\<lparr>qa_history := qa_history s @ [(user_question inp, answer)]\<rparr>;
                     (s2, ev2) = done_button inp s1
                 in \<lparr>session = s2, events = ev @ ev2, uncaught = None\<rparr>))
         else
           (let (s2, ev2) = done_button inp s
            in \<lparr>session = s2, events = ev2, uncaught = None\<rparr>))
      else \<lparr>session = s, events = [], uncaught = None\<rparr>)"

text \<open>One run of summarizer.py, from line 12 to the end.\<close>

definition run_summarizer :: "env \<Rightarrow> inputs \<Rightarrow> session_state \<Rightarrow> run_result" where
  "run_summarizer env inp s =
     (case startup env of
        Inl e \<Rightarrow> \<lparr>session = s, events = [], uncaught = Some e\<rparr>
      | Inr cl \<Rightarrow>
          (let (s1, ev1) =
                 (if generate_clicked inp then generate_summary_button env cl inp s
                  else (s, []));
               r = qa_interface env cl inp s1
           in r\<lparr>events := ev1 @ events r\<rparr>))"

text \<open>One run of summarizero2.py.\<close>

definition run_summarizero2 :: "env \<Rightarrow> inputs \<Rightarrow> session_state \<Rightarrow> run_result" where
  "run_summarizero2 env inp s =
     (case startup env of
        Inl e \<Rightarrow> \<lparr>session = s, events = [], uncaught = Some e\<rparr>
      | Inr cl \<Rightarrow>
          (let (s1, ev1) =
                 (if generate_clicked inp then generate_summary_button_o2 env cl inp s
                  else (s, []));
               r = qa_interface env cl inp s1
           in r\<lparr>events := ev1 @ events r\<rparr>))"


text \<open>
  The three user actions of the specification, as the widget values of the run that
  handles them: one button is True, the others are False.
\<close>

definition is_GenerateSummary :: "inputs \<Rightarrow> bool" where
  "is_GenerateSummary inp =
     (generate_clicked inp \<and> \<not> submit_question inp \<and> \<not> done_clicked inp)"

definition is_AskQuestion :: "inputs \<Rightarrow> bool" where
  "is_AskQuestion inp =
     (\<not> generate_clicked inp \<and> submit_question inp \<and> \<not> done_clicked inp)"


section \<open>A session as a sequence of runs\<close>


text \<open>
  The ways in which a GenerateSummary action fails in summarizer.py, stated on what the
  library and the services answer, for a client \<open>cl\<close>: the URL is blank; no identifier
  is extracted (the parser raises, or the result is \<open>None\<close> or the empty string); the
  transcript service raises; the completion service raises or returns no choice.
\<close>

definition GenerateSummary_fails :: "env \<Rightarrow> client \<Rightarrow> inputs \<Rightarrow> bool" where
  "GenerateSummary_fails env cl inp =
     (is_blank (youtube_url inp) \<or>
      (case extract_video_id env (youtube_url inp) of
         Inl e \<Rightarrow> True
       | Inr None \<Rightarrow> True
       | Inr (Some video_id) \<Rightarrow>
           video_id = [] \<or>
           (case get_transcript env video_id None of
              Inl e \<Rightarrow> True
            | Inr transcript_list \<Rightarrow>
                (case chat_completions_create env cl
                        (summary_request (user_prompt inp)
                           (str_join '' '' (map entry_text transcript_list))
                           (selected_model inp)) of
                   Inl e \<Rightarrow> True
                 | Inr response \<Rightarrow> choices response = []))))"

text \<open>
  The same for summarizero2.py, which passes the proxies of the environment to the
  transcript service and sends another system message.
\<close>

definition GenerateSummary_fails_o2 :: "env \<Rightarrow> client \<Rightarrow> inputs \<Rightarrow> bool" where
  "GenerateSummary_fails_o2 env cl inp =
     (is_blank (youtube_url inp) \<or>
      (case extract_video_id_o2 env (youtube_url inp) of
         Inl e \<Rightarrow> True
       | Inr None \<Rightarrow> True
       | Inr (Some video_id) \<Rightarrow>
           video_id = [] \<or>
           (case get_transcript env video_id
                   (Some (getenv env ''HTTP_PROXY'', getenv env ''HTTPS_PROXY'')) of
              Inl e \<Rightarrow> True
            | Inr transcript_list \<Rightarrow>
                (case chat_completions_create env cl
                        (summary_request_o2 (user_prompt inp)
                           (str_join '' '' (map entry_text transcript_list))
                           (selected_model inp)) of
                   Inl e \<Rightarrow> True
                 | Inr response \<Rightarrow> choices response = []))))"


section \<open>The library functions, after CPython 3.11\<close>

text \<open>
  \<open>urllib.parse\<close> and the client constructor of the \<open>openai\<close> package, written after
  their sources. They are the library of the test environments below, and the
  statements that depend on what the library does name them in a hypothesis. Two
  checks of \<open>urlsplit\<close> need tables that are not modelled and are parameters: the check
  of a host in square brackets (\<open>_check_bracketed_host\<close>, module \<open>ipaddress\<close>) and the
  check of a netloc with non-ASCII characters (\<open>_checknetloc\<close>, module
  \<open>unicodedata\<close>); each returns the exception it raises, if any. \<open>str.lower\<close> is
  modelled on ASCII letters; other bytes stay as they are.
\<close>

definition ascii_upper_letter :: "char \<Rightarrow> bool" where
  "ascii_upper_letter c = (65 \<le> (of_char c :: nat) \<and> (of_char c :: nat) \<le> 90)"

definition ascii_lower_letter :: "char \<Rightarrow> bool" where
  "ascii_lower_letter c = (97 \<le> (of_char c :: nat) \<and> (of_char c :: nat) \<le> 122)"

definition ascii_digit :: "char \<Rightarrow> bool" where
  "ascii_digit c = (48 \<le> (of_char c :: nat) \<and> (of_char c :: nat) \<le> 57)"

definition lower_char :: "char \<Rightarrow> char" where
  "lower_char c = (if ascii_upper_letter c then char_of ((of_char c :: nat) + 32) else c)"

definition scheme_char :: "char \<Rightarrow> bool" where
  "scheme_char c = (ascii_lower_letter c \<or> ascii_upper_letter c \<or> ascii_digit c \<or>
     c \<in> set ''+-.'')"

definition uses_params :: "string list" where
  "uses_params = [[], ''ftp'', ''hdl'', ''prospero'', ''http'', ''imap'', ''https'',
     ''shttp'', ''rtsp'', ''rtsps'', ''rtspu'', ''sip'', ''sips'', ''mms'', ''sftp'',
     ''tel'']"

text \<open>\<open>s.partition(c)\<close> at the first \<open>c\<close>: the parts before and after it.\<close>

definition before :: "char \<Rightarrow> string \<Rightarrow> string" where
  "before c s = takeWhile (\<lambda>x. x \<noteq> c) s"

definition after :: "char \<Rightarrow> string \<Rightarrow> string" where
  "after c s = drop 1 (dropWhile (\<lambda>x. x \<noteq> c) s)"

text \<open>The part after the last \<open>c\<close>; all of \<open>s\<close> when there is none.\<close>

definition after_last :: "char \<Rightarrow> string \<Rightarrow> string" where
  "after_last c s = rev (takeWhile (\<lambda>x. x \<noteq> c) (rev s))"

text \<open>
  The scheme of \<open>urlsplit\<close>: the text before the first colon when it is not empty,
  starts with an ASCII letter and has scheme characters only.
\<close>

definition split_scheme :: "string \<Rightarrow> string \<times> string" where
  "split_scheme url =
     (case before CHR '':'' url of
        [] \<Rightarrow> ([], url)
      | c # cs \<Rightarrow>
          if CHR '':'' \<in> set url \<and> (ascii_lower_letter c \<or> ascii_upper_letter c) \<and>
             list_all scheme_char (c # cs)
          then (map lower_char (c # cs), after CHR '':'' url)
          else ([], url))"

definition netloc_delim :: "char \<Rightarrow> bool" where
  "netloc_delim c = (c \<in> set ''/?#'')"

record split_result =
  sr_scheme :: string
  sr_netloc :: string
  sr_url :: string
  sr_query :: string
  sr_fragment :: string

definition urlsplit ::
  "(string \<Rightarrow> exn option) \<Rightarrow> (string \<Rightarrow> exn option) \<Rightarrow> string \<Rightarrow> exn + split_result" where
  "urlsplit check_bracketed_host checknetloc url0 =
     (let url1 = dropWhile (\<lambda>c. (of_char c :: nat) \<le> 32) url0;
          url2 = filter (\<lambda>c. c \<notin> set [CHR 0x09, CHR 0x0D, CHR 0x0A]) url1;
          (schm, url3) = split_scheme url2;
          has_netloc = (take 2 url3 = ''//'');
          nloc = (if has_netloc then takeWhile (\<lambda>c. \<not> netloc_delim c) (drop 2 url3) else []);
          url4 = (if has_netloc then dropWhile (\<lambda>c. \<not> netloc_delim c) (drop 2 url3) else url3);
          open_br = (CHR ''['' \<in> set nloc);
          close_br = (CHR '']'' \<in> set nloc);
          frag = after CHR ''#'' url4;
          url5 = before CHR ''#'' url4;
          qry = after CHR ''?'' url5;
          url6 = before CHR ''?'' url5;
          non_ascii = (nloc \<noteq> [] \<and> \<not> list_all (\<lambda>c. (of_char c :: nat) < 128) nloc)
      in if open_br \<noteq> close_br then Inl (Exn ValueError ''Invalid IPv6 URL'')
         else
           (case (if open_br \<and> close_br
                  then check_bracketed_host (before CHR '']'' (after CHR ''['' nloc))
                  else None) of
              Some e \<Rightarrow> Inl e
            | None \<Rightarrow>
                (case (if non_ascii then checknetloc nloc else None) of
                   Some e \<Rightarrow> Inl e
                 | None \<Rightarrow>
                     Inr \<lparr>sr_scheme = schm, sr_netloc = nloc, sr_url = url6,
                          sr_query = qry, sr_fragment = frag\<rparr>)))"

text \<open>\<open>_splitparams\<close>: the parameters start at the first semicolon of the last segment.\<close>

definition splitparams :: "string \<Rightarrow> string \<times> string" where
  "splitparams url =
     (let seg = after_last CHR ''/'' url;
          front = take (length url - length seg) url
      in if CHR '';'' \<in> set seg then (front @ before CHR '';'' seg, after CHR '';'' seg)
         else (url, []))"

text \<open>The property \<open>hostname\<close> of a parse result.\<close>

definition hostname_of :: "string \<Rightarrow> string option" where
  "hostname_of nloc =
     (let hostinfo = after_last CHR ''@'' nloc;
          host = (if CHR ''['' \<in> set hostinfo
                  then before CHR '']'' (after CHR ''['' hostinfo)
                  else before CHR '':'' hostinfo)
      in if host = [] then None
         else Some (map lower_char (before CHR ''%'' host) @
                    dropWhile (\<lambda>c. c \<noteq> CHR ''%'') host))"

definition urlparse_py ::
  "(string \<Rightarrow> exn option) \<Rightarrow> (string \<Rightarrow> exn option) \<Rightarrow> string \<Rightarrow> exn + parse_result" where
  "urlparse_py check_bracketed_host checknetloc url =
     (case urlsplit check_bracketed_host checknetloc url of
        Inl e \<Rightarrow> Inl e
      | Inr sr \<Rightarrow>
          (let (pth, prms) =
                 (if sr_scheme sr \<in> set uses_params \<and> CHR '';'' \<in> set (sr_url sr)
                  then splitparams (sr_url sr) else (sr_url sr, []))
           in Inr \<lparr>scheme = sr_scheme sr, netloc = sr_netloc sr, path = pth, params = prms,
                   query = sr_query sr, fragment = sr_fragment sr,
                   hostname = hostname_of (sr_netloc sr)\<rparr>))"

text \<open>
  \<open>parse_qs\<close> with its default arguments: the fields between ampersands, each split at
  its first equals sign; a field with an empty value is dropped; names and values are
  unquoted (\<open>+\<close> is a space, \<open>%XY\<close> a byte). The replacement of bytes that are not
  UTF-8 (\<open>errors='replace'\<close>) is not modelled.
\<close>

fun split_on :: "char \<Rightarrow> string \<Rightarrow> string list" where
  "split_on sep [] = [[]]"
| "split_on sep (c # cs) =
     (if c = sep then [] # split_on sep cs
      else (case split_on sep cs of
              [] \<Rightarrow> [[c]]
            | w # ws \<Rightarrow> (c # w) # ws))"

definition hex_digit :: "char \<Rightarrow> bool" where
  "hex_digit c = (ascii_digit c \<or> c \<in> set ''abcdefABCDEF'')"

definition hex_value :: "char \<Rightarrow> nat" where
  "hex_value c =
     (if ascii_digit c then of_char c - 48
      else if ascii_lower_letter c then of_char c - 87
      else of_char c - 55)"

fun unquote :: "string \<Rightarrow> string" where
  "unquote (c # h1 # h2 # cs) =
     (if c = CHR ''%'' \<and> hex_digit h1 \<and> hex_digit h2
      then char_of (16 * hex_value h1 + hex_value h2) # unquote cs
      else c # unquote (h1 # h2 # cs))"
| "unquote (c # cs) = c # unquote cs"
| "unquote [] = []"

definition unquote_plus :: "string \<Rightarrow> string" where
  "unquote_plus s = unquote (map (\<lambda>c. if c = CHR ''+'' then CHR '' '' else c) s)"

definition parse_qsl :: "string \<Rightarrow> (string \<times> string) list" where
  "parse_qsl qs =
     (if qs = [] then []
      else map (\<lambda>name_value. (unquote_plus (before CHR ''='' name_value),
                              unquote_plus (after CHR ''='' name_value)))
             (filter (\<lambda>name_value. name_value \<noteq> [] \<and> after CHR ''='' name_value \<noteq> [])
                (split_on CHR ''&'' qs)))"

definition parse_qs_py :: "string \<Rightarrow> (string \<rightharpoonup> string list)" where
  "parse_qs_py qs name =
     (case map snd (filter (\<lambda>nv. fst nv = name) (parse_qsl qs)) of
        [] \<Rightarrow> None
      | v # vs \<Rightarrow> Some (v # vs))"

text \<open>
  The constructor \<open>OpenAI(api_key=...)\<close>: a key that is \<open>None\<close> is looked up in the
  environment once more, and the constructor raises when it is absent there too.
\<close>

definition OpenAI_py :: "(string \<Rightarrow> string option) \<Rightarrow> string option \<Rightarrow> exn + client" where
  "OpenAI_py environ key =
     (case (case key of None \<Rightarrow> environ ''OPENAI_API_KEY'' | Some k \<Rightarrow> Some k) of
        None \<Rightarrow> Inl (Exn OpenAIError
          ''The api_key client option must be set either by passing api_key to the client or by setting the OPENAI_API_KEY environment variable'')
      | Some k \<Rightarrow> Inr \<lparr>api_key = k\<rparr>)"

section \<open>Test environments and widget values\<close>

text \<open>
  The process environment \<open>environ\<close>, and services that answer every request with
  \<open>transcript_result\<close> and \<open>chat_result\<close>. Hosts in square brackets are refused and
  the non-ASCII check passes.
\<close>

definition test_env ::
  "(string \<Rightarrow> string option) \<Rightarrow> (exn + entry list) \<Rightarrow> (exn + chat_response) \<Rightarrow> env" where
  "test_env environ transcript_result chat_result =
     \<lparr>getenv = environ,
      OpenAI = OpenAI_py environ,
      urlparse = urlparse_py (\<lambda>h. Some (Exn ValueError ''Invalid IPv6 URL'')) (\<lambda>n. None),
      parse_qs = parse_qs_py,
      get_transcript = (\<lambda>video_id prox. transcript_result),
      chat_completions_create = (\<lambda>cl request. chat_result)\<rparr>"

definition with_key :: "string \<Rightarrow> string option" where
  "with_key name = (if name = ''OPENAI_API_KEY'' then Some ''sk-test'' else None)"


definition hello_world :: "entry list" where
  "hello_world =
     [\<lparr>entry_text = ''hello'', entry_start = 0, entry_duration = 1\<rparr>,
      \<lparr>entry_text = ''world'', entry_start = 1, entry_duration = 1\<rparr>]"

definition click_generate :: "string \<Rightarrow> inputs" where
  "click_generate url =
     \<lparr>youtube_url = url, user_prompt = ''Summarize this video for a blog post.'',
      selected_model = ''gpt-3.5-turbo'', generate_clicked = True, user_question = [],
      submit_question = False, done_clicked = False\<rparr>"

definition click_ask :: "string \<Rightarrow> inputs" where
  "click_ask question =
     \<lparr>youtube_url = ''https://youtu.be/abc123'',
      user_prompt = ''Summarize this video for a blog post.'',
      selected_model = ''gpt-3.5-turbo'', generate_clicked = False, user_question = question,
      submit_question = True, done_clicked = False\<rparr>"


text \<open>
  An identifier that \<open>urlparse\<close> leaves in the path as it is: no query or fragment
  mark, no semicolon (which starts the parameters of the last segment), and none of the
  characters TAB, CR and LF, which \<open>urlsplit\<close> removes from a URL.
\<close>

definition plain_id :: "string \<Rightarrow> bool" where
  "plain_id ident =
     list_all (\<lambda>c. c \<notin> set [CHR ''?'', CHR ''#'', CHR '';'', CHR 0x09, CHR 0x0D, CHR 0x0A]) ident"

section \<open>Facts about the helpers\<close>

lemma str_join_cons: "str_join sep (t # ts) = t @ concat (map (\<lambda>u. sep @ u) ts)"
  by (induction ts arbitrary: t) simp_all

lemma str_join_closed:
  "str_join sep xs = (case xs of [] \<Rightarrow> [] | t # ts \<Rightarrow> t @ concat (map (\<lambda>u. sep @ u) ts))"
  by (cases xs) (simp_all add: str_join_cons del: str_join.simps(3))

lemma split_scheme_https:
  "split_scheme (''https://youtu.be/'' @ rest) = (''https'', ''//youtu.be/'' @ rest)"
  by (simp add: split_scheme_def before_def after_def scheme_char_def lower_char_def
      ascii_lower_letter_def ascii_upper_letter_def ascii_digit_def)

lemmas split_scheme_https_cons = split_scheme_https [simplified]

lemma hostname_of_youtu_be: "hostname_of ''youtu.be'' = Some ''youtu.be''"
  by (simp add: hostname_of_def after_last_def before_def after_def lower_char_def
      ascii_upper_letter_def Let_def)

lemma urlsplit_youtu_be:
  assumes "plain_id ident"
  shows "urlsplit check_bracketed_host checknetloc (''https://youtu.be/'' @ ident) =
     Inr \<lparr>sr_scheme = ''https'', sr_netloc = ''youtu.be'', sr_url = ''/'' @ ident,
          sr_query = [], sr_fragment = []\<rparr>"
proof -
  have no: "\<forall>c \<in> set ident. c \<noteq> CHR ''?'' \<and> c \<noteq> CHR ''#'' \<and> c \<noteq> CHR 0x09 \<and>
      c \<noteq> CHR 0x0D \<and> c \<noteq> CHR 0x0A"
    using assms by (auto simp: plain_id_def list_all_iff)
  have clean: "filter (\<lambda>c. c \<noteq> CHR 0x09 \<and> c \<noteq> CHR 0x0D \<and> c \<noteq> CHR 0x0A) ident = ident"
    using no by (intro filter_True) simp
  have frag: "dropWhile (\<lambda>x. x \<noteq> CHR ''#'') ident = []"
    "takeWhile (\<lambda>x. x \<noteq> CHR ''#'') ident = ident"
    using no by simp_all
  have qry: "dropWhile (\<lambda>x. x \<noteq> CHR ''?'') ident = []"
    "takeWhile (\<lambda>x. x \<noteq> CHR ''?'') ident = ident"
    using no by simp_all
  show ?thesis
    by (simp add: urlsplit_def Let_def clean split_scheme_https_cons netloc_delim_def
        before_def after_def frag qry)
qed

text \<open>
  The parser on a short link: the host is \<open>youtu.be\<close> and the path is the identifier
  after a slash, whatever the two parameter checks are (they are not consulted).
\<close>

lemma urlparse_py_youtu_be:
  assumes "plain_id ident"
  shows "urlparse_py check_bracketed_host checknetloc (''https://youtu.be/'' @ ident) =
     Inr \<lparr>scheme = ''https'', netloc = ''youtu.be'', path = ''/'' @ ident, params = [],
          query = [], fragment = [], hostname = Some ''youtu.be''\<rparr>"
proof -
  have "CHR '';'' \<notin> set ident"
    using assms by (auto simp: plain_id_def list_all_iff)
  then show ?thesis
    unfolding urlparse_py_def urlsplit_youtu_be [OF assms]
    by (simp add: hostname_of_youtu_be uses_params_def)
qed

lemmas urlparse_py_youtu_be_cons = urlparse_py_youtu_be [simplified]

section \<open>Facts about one run\<close>

lemma qa_interface_idle:
  "\<not> submit_question inp \<Longrightarrow> \<not> done_clicked inp \<Longrightarrow>
   qa_interface env cl inp s = \<lparr>session = s, events = [], uncaught = None\<rparr>"
  by (simp add: qa_interface_def done_button_def)

lemma generate_summary_button_success:
  assumes "\<not> is_blank (youtube_url inp)"
    and "extract_video_id env (youtube_url inp) = Inr (Some video_id)"
    and "video_id \<noteq> []"
    and "get_transcript env video_id None = Inr transcript_list"
    and "chat_completions_create env cl
           (summary_request (user_prompt inp) (str_join '' '' (map entry_text transcript_list))
              (selected_model inp)) = Inr response"
    and "choices response = txt # others"
  shows "fst (generate_summary_button env cl inp s) = s\<lparr>summary := txt, qa_active := True\<rparr>"
  using assms
  by (simp add: generate_summary_button_def fetch_transcript_def generate_summary_def
      first_content_def)

lemma generate_summary_button_fails:
  "GenerateSummary_fails env cl inp \<Longrightarrow> fst (generate_summary_button env cl inp s) = s"
  by (auto simp: GenerateSummary_fails_def generate_summary_button_def fetch_transcript_def
      generate_summary_def first_content_def Let_def
      split: sum.split option.split list.split)

lemma generate_summary_button_o2_fails:
  "GenerateSummary_fails_o2 env cl inp \<Longrightarrow> fst (generate_summary_button_o2 env cl inp s) = s"
  by (auto simp: GenerateSummary_fails_o2_def generate_summary_button_o2_def
      fetch_transcript_o2_def generate_summary_o2_def first_content_def Let_def
      split: sum.split option.split list.split)




section \<open>The scripts in the test environments\<close>

lemma test_env_services:
  "get_transcript (test_env environ tr cr) video_id prox = tr"
  "chat_completions_create (test_env environ tr cr) cl request = cr"
  "getenv (test_env environ tr cr) = environ"
  by (simp_all add: test_env_def)

lemma startup_with_key:
  "startup (test_env with_key tr cr) = Inr \<lparr>api_key = ''sk-test''\<rparr>"
  by (simp add: startup_def test_env_def OpenAI_py_def with_key_def)

lemma extract_abc123:
  "extract_video_id (test_env environ tr cr) ''https://youtu.be/abc123'' = Inr (Some ''abc123'')"
  by (simp add: extract_video_id_def test_env_def urlparse_py_youtu_be_cons plain_id_def)

lemma extract_o2_abc123:
  "extract_video_id_o2 (test_env environ tr cr) ''https://youtu.be/abc123'' = Inr (Some ''abc123'')"
  by (simp add: extract_video_id_o2_def test_env_def urlparse_py_youtu_be_cons plain_id_def)

lemma url_not_blank: "\<not> is_blank ''https://youtu.be/abc123''"
  by (simp add: ascii_space_def two_byte_space_def three_byte_space_def)












section \<open>The session state machine\<close>

text \<open>
  C1. For every session state and every successful GenerateSummary action (the URL is not
  blank, an identifier that is not empty is extracted, the transcript is fetched, the
  completion is returned and has a first choice \<open>txt\<close>), the run of summarizer.py leaves
  \<open>summary\<close> equal to \<open>txt\<close>, \<open>qa_active\<close> true and \<open>qa_history\<close> as it was
  before the run.
\<close>

theorem generate_summary_success:
  assumes "is_GenerateSummary inp"
    and "startup env = Inr cl"
    and "\<not> is_blank (youtube_url inp)"
    and "extract_video_id env (youtube_url inp) = Inr (Some video_id)"
    and "video_id \<noteq> []"
    and "get_transcript env video_id None = Inr transcript_list"
    and "chat_completions_create env cl
           (summary_request (user_prompt inp) (str_join '' '' (map entry_text transcript_list))
              (selected_model inp)) = Inr response"
    and "choices response = txt # others"
  shows "summary (session (run_summarizer env inp s)) = txt \<and>
         qa_active (session (run_summarizer env inp s)) \<and>
         qa_history (session (run_summarizer env inp s)) = qa_history s"
proof -
  have flags: "generate_clicked inp" "\<not> submit_question inp" "\<not> done_clicked inp"
    using assms(1) by (simp_all add: is_GenerateSummary_def)
  have button: "fst (generate_summary_button env cl inp s) = s\<lparr>summary := txt, qa_active := True\<rparr>"
    using assms(3-8) by (rule generate_summary_button_success)
  have "session (run_summarizer env inp s) = s\<lparr>summary := txt, qa_active := True\<rparr>"
    using flags button assms(2)
    by (simp add: run_summarizer_def qa_interface_idle split_beta)
  then show ?thesis by simp
qed

text \<open>
  The scenario of the specification, from a state with an old summary and one past
  question: the summary is overwritten, the question stays.
\<close>

theorem generate_summary_success_witness:
  "summary (session (run_summarizer
      (test_env with_key (Inr hello_world) (Inr \<lparr>choices = [''Summary text'']\<rparr>))
      (click_generate ''https://youtu.be/abc123'')
      \<lparr>summary = ''Old summary'', qa_active = False,
       qa_history = [(''What is it about?'', ''It is about hello world'')]\<rparr>)) = ''Summary text'' \<and>
   qa_active (session (run_summarizer
      (test_env with_key (Inr hello_world) (Inr \<lparr>choices = [''Summary text'']\<rparr>))
      (click_generate ''https://youtu.be/abc123'')
      \<lparr>summary = ''Old summary'', qa_active = False,
       qa_history = [(''What is it about?'', ''It is about hello world'')]\<rparr>)) \<and>
   qa_history (session (run_summarizer
      (test_env with_key (Inr hello_world) (Inr \<lparr>choices = [''Summary text'']\<rparr>))
      (click_generate ''https://youtu.be/abc123'')
      \<lparr>summary = ''Old summary'', qa_active = False,
       qa_history = [(''What is it about?'', ''It is about hello world'')]\<rparr>)) =
     [(''What is it about?'', ''It is about hello world'')]"
proof -
  let ?env = "test_env with_key (Inr hello_world) (Inr \<lparr>choices = [''Summary text'']\<rparr>)"
  let ?inp = "click_generate ''https://youtu.be/abc123''"
  have h1: "is_GenerateSummary ?inp"
    by (simp add: is_GenerateSummary_def click_generate_def)
  have h2: "startup ?env = Inr \<lparr>api_key = ''sk-test''\<rparr>"
    by (rule startup_with_key)
  have h3: "\<not> is_blank (youtube_url ?inp)"
    using url_not_blank by (simp add: click_generate_def)
  have h4: "extract_video_id ?env (youtube_url ?inp) = Inr (Some ''abc123'')"
    using extract_abc123 by (simp add: click_generate_def)
  have h5: "''abc123'' \<noteq> []" by simp
  have h6: "get_transcript ?env ''abc123'' None = Inr hello_world"
    by (simp add: test_env_def)
  have h7: "chat_completions_create ?env \<lparr>api_key = ''sk-test''\<rparr>
      (summary_request (user_prompt ?inp) (str_join '' '' (map entry_text hello_world))
         (selected_model ?inp)) = Inr \<lparr>choices = [''Summary text'']\<rparr>"
    by (simp add: test_env_def)
  have h8: "choices \<lparr>choices = [''Summary text'']\<rparr> = ''Summary text'' # []" by simp
  show ?thesis
    using generate_summary_success [OF h1 h2 h3 h4 h5 h6 h7 h8] by simp
qed

text \<open>
  C2. For every session state, a GenerateSummary action that fails at any step (blank
  URL, no identifier extracted, transcript fetch error, completion error: the cases of
  \<open>GenerateSummary_fails\<close>) leaves the session state, that is \<open>summary\<close>,
  \<open>qa_active\<close> and \<open>qa_history\<close>, as it was; in summarizer.py and in summarizero2.py.
\<close>

theorem generate_summary_failure_keeps_state:
  assumes "is_GenerateSummary inp" and "startup env = Inr cl"
  shows "(GenerateSummary_fails env cl inp \<longrightarrow> session (run_summarizer env inp s) = s) \<and>
         (GenerateSummary_fails_o2 env cl inp \<longrightarrow> session (run_summarizero2 env inp s) = s)"
proof -
  have flags: "generate_clicked inp" "\<not> submit_question inp" "\<not> done_clicked inp"
    using assms(1) by (simp_all add: is_GenerateSummary_def)
  show ?thesis
    using flags assms(2) generate_summary_button_fails [of env cl inp s]
      generate_summary_button_o2_fails [of env cl inp s]
    by (simp add: run_summarizer_def run_summarizero2_def qa_interface_idle split_beta)
qed

text \<open>A transcript service that fails, in a session with a summary and one past question.\<close>

theorem generate_summary_failure_keeps_state_witness:
  "session (run_summarizer
      (test_env with_key (Inl (Exn OtherException ''Subtitles are disabled for this video''))
         (Inr \<lparr>choices = [''Summary text'']\<rparr>))
      (click_generate ''https://youtu.be/abc123'')
      \<lparr>summary = ''Old summary'', qa_active = True,
       qa_history = [(''What is it about?'', ''It is about hello world'')]\<rparr>) =
     \<lparr>summary = ''Old summary'', qa_active = True,
      qa_history = [(''What is it about?'', ''It is about hello world'')]\<rparr> \<and>
   session (run_summarizero2
      (test_env with_key (Inl (Exn OtherException ''Subtitles are disabled for this video''))
         (Inr \<lparr>choices = [''Summary text'']\<rparr>))
      (click_generate ''https://youtu.be/abc123'')
      \<lparr>summary = ''Old summary'', qa_active = True,
       qa_history = [(''What is it about?'', ''It is about hello world'')]\<rparr>) =
     \<lparr>summary = ''Old summary'', qa_active = True,
      qa_history = [(''What is it about?'', ''It is about hello world'')]\<rparr>"
proof -
  let ?env = "test_env with_key (Inl (Exn OtherException ''Subtitles are disabled for this video''))
         (Inr \<lparr>choices = [''Summary text'']\<rparr>)"
  let ?inp = "click_generate ''https://youtu.be/abc123''"
  let ?cl = "\<lparr>api_key = ''sk-test''\<rparr>"
  have h1: "is_GenerateSummary ?inp"
    by (simp add: is_GenerateSummary_def click_generate_def)
  have h2: "startup ?env = Inr ?cl"
    by (rule startup_with_key)
  have f1: "GenerateSummary_fails ?env ?cl ?inp"
    by (simp add: GenerateSummary_fails_def click_generate_def extract_abc123
        test_env_services)
  have f2: "GenerateSummary_fails_o2 ?env ?cl ?inp"
    by (simp add: GenerateSummary_fails_o2_def click_generate_def extract_o2_abc123
        test_env_services)
  show ?thesis
    using generate_summary_failure_keeps_state [OF h1 h2] f1 f2 by simp
qed







text \<open>
  C5. For every session state and every question, an AskQuestion action changes nothing,
  sends no request and shows no message when \<open>qa_active\<close> is false, and likewise when
  the question is blank: the session state is as before (no history entry), the run has
  no event (no request to the language model, no error message) and no exception but the
  one of a failed start, in summarizer.py and in summarizero2.py.
\<close>

theorem ask_question_ignored:
  assumes "is_AskQuestion inp" and "\<not> qa_active s \<or> is_blank (user_question inp)"
  shows "session (run_summarizer env inp s) = s \<and>
         events (run_summarizer env inp s) = [] \<and>
         uncaught (run_summarizer env inp s) =
           (case startup env of Inl e \<Rightarrow> Some e | Inr cl \<Rightarrow> None) \<and>
         run_summarizero2 env inp s = run_summarizer env inp s"
  using assms
  by (auto simp: is_AskQuestion_def run_summarizer_def run_summarizero2_def qa_interface_def
      done_button_def split: sum.splits)

text \<open>A question after the session was ended, and a blank question in an active session.\<close>

theorem ask_question_ignored_witness:
  "run_summarizer
      (test_env with_key (Inr hello_world) (Inr \<lparr>choices = [''It is about hello world'']\<rparr>))
      (click_ask ''What is it about?'')
      \<lparr>summary = ''Summary text'', qa_active = False, qa_history = []\<rparr> =
     \<lparr>session = \<lparr>summary = ''Summary text'', qa_active = False, qa_history = []\<rparr>,
      events = [], uncaught = None\<rparr> \<and>
   run_summarizer
      (test_env with_key (Inr hello_world) (Inr \<lparr>choices = [''It is about hello world'']\<rparr>))
      (click_ask ''   '')
      \<lparr>summary = ''Summary text'', qa_active = True, qa_history = []\<rparr> =
     \<lparr>session = \<lparr>summary = ''Summary text'', qa_active = True, qa_history = []\<rparr>,
      events = [], uncaught = None\<rparr>"
proof -
  let ?env = "test_env with_key (Inr hello_world) (Inr \<lparr>choices = [''It is about hello world'']\<rparr>)"
  have a1: "is_AskQuestion (click_ask ''What is it about?'')"
    and a2: "is_AskQuestion (click_ask ''   '')"
    by (simp_all add: is_AskQuestion_def click_ask_def)
  have b: "is_blank (user_question (click_ask ''   ''))"
    by (simp add: click_ask_def ascii_space_def)
  have h2: "startup ?env = Inr \<lparr>api_key = ''sk-test''\<rparr>"
    by (rule startup_with_key)
  have r1: "run_summarizer ?env (click_ask ''What is it about?'')
      \<lparr>summary = ''Summary text'', qa_active = False, qa_history = []\<rparr> =
     \<lparr>session = \<lparr>summary = ''Summary text'', qa_active = False, qa_history = []\<rparr>,
      events = [], uncaught = None\<rparr>"
    using ask_question_ignored [OF a1,
        of "\<lparr>summary = ''Summary text'', qa_active = False, qa_history = []\<rparr>" ?env] h2
    by (cases "run_summarizer ?env (click_ask ''What is it about?'')
      \<lparr>summary = ''Summary text'', qa_active = False, qa_history = []\<rparr>") simp
  have r2: "run_summarizer ?env (click_ask ''   '')
      \<lparr>summary = ''Summary text'', qa_active = True, qa_history = []\<rparr> =
     \<lparr>session = \<lparr>summary = ''Summary text'', qa_active = True, qa_history = []\<rparr>,
      events = [], uncaught = None\<rparr>"
    using ask_question_ignored [OF a2,
        of "\<lparr>summary = ''Summary text'', qa_active = True, qa_history = []\<rparr>" ?env] h2 b
    by (cases "run_summarizer ?env (click_ask ''   '')
      \<lparr>summary = ''Summary text'', qa_active = True, qa_history = []\<rparr>") simp
  show ?thesis using r1 r2 by simp
qed

section \<open>Video identifier, transcript and start\<close>









text \<open>
  C9. For every sequence of caption fragments that the transcript service returns,
  \<open>fetch_transcript\<close> returns the texts of the fragments, in the order of the
  service, with one space between two neighbours and nothing else changed: the first
  text followed by every other text with a space before it. In summarizer.py (and
  summary.py) and in summarizero2.py.
\<close>

theorem fetch_transcript_joins_fragments:
  "(get_transcript env video_id None = Inr transcript_list \<longrightarrow>
      snd (fetch_transcript env video_id) =
        Inr (case map entry_text transcript_list of
               [] \<Rightarrow> []
             | t # ts \<Rightarrow> t @ concat (map (\<lambda>u. '' '' @ u) ts))) \<and>
   (get_transcript env video_id (Some (getenv env ''HTTP_PROXY'', getenv env ''HTTPS_PROXY''))
      = Inr transcript_list \<longrightarrow>
      snd (fetch_transcript_o2 env video_id) =
        Inr (case map entry_text transcript_list of
               [] \<Rightarrow> []
             | t # ts \<Rightarrow> t @ concat (map (\<lambda>u. '' '' @ u) ts)))"
  by (simp add: fetch_transcript_def fetch_transcript_o2_def str_join_closed)

text \<open>The transcript of the scenario of the specification.\<close>

theorem fetch_transcript_joins_fragments_witness:
  "snd (fetch_transcript (test_env with_key (Inr hello_world) (Inr \<lparr>choices = []\<rparr>)) ''abc123'')
     = Inr ''hello world'' \<and>
   snd (fetch_transcript_o2 (test_env with_key (Inr hello_world) (Inr \<lparr>choices = []\<rparr>)) ''abc123'')
     = Inr ''hello world''"
  using fetch_transcript_joins_fragments
    [of "test_env with_key (Inr hello_world) (Inr \<lparr>choices = []\<rparr>)" "''abc123''" hello_world]
  by (simp add: test_env_def hello_world_def)

text \<open>
  C10. The functions \<open>extract_video_id\<close> of summarizer.py, summarizero2.py and
  summary.py return the same result for every URL (with the same library).
\<close>

theorem extract_video_id_variants_equal:
  "extract_video_id env url = extract_video_id_o2 env url \<and>
   extract_video_id_o2 env url = extract_video_id_summary env url"
  by (simp add: extract_video_id_def extract_video_id_o2_def extract_video_id_summary_def)

end
